theory Spec2Isabelle
  imports Complex_Main
begin

section \<open>RhizoVision Explorer command line front end (\<open>rv\<close>)\<close>

text \<open>
  A shallow embedding of the console program of RhizoVision Explorer: the option parser
  \<open>parseCommandLine\<close> with its helpers for \<open>--dranges\<close>, the per-image driver
  \<open>analyzeImage\<close>, the CSV writer (\<open>writeCsvHeader\<close>, \<open>writeResultsToCsv\<close>) and
  \<open>main\<close>. The build modelled is the console build (\<open>RVE_CLI\<close> defined,
  \<open>BUILD_GUI\<close> undefined), so the ROI manager branches are absent.

  Library calls (the C and C++ standard library, \<open>std::filesystem\<close>, OpenCV and the
  feature extraction pipeline \<open>feature_extractor\<close>, whose body is not part of the
  sources at hand) are fields of an environment record; every theorem holds for every
  environment unless it says otherwise.
\<close>

subsection \<open>Values\<close>

text \<open>
  A C++ \<open>double\<close>: a finite value, an infinity or a NaN. Comparisons follow IEEE 754:
  every ordered comparison with a NaN is false.
\<close>

datatype double = Fin real | PInf | NInf | NaN

fun dless :: "double \<Rightarrow> double \<Rightarrow> bool" where
  "dless NaN b = False"
| "dless a NaN = False"
| "dless NInf NInf = False"
| "dless NInf b = True"
| "dless a NInf = False"
| "dless PInf b = False"
| "dless a PInf = True"
| "dless (Fin a) (Fin b) = (a < b)"

definition deq :: "double \<Rightarrow> double \<Rightarrow> bool" where
  "deq a b = (a \<noteq> NaN \<and> b \<noteq> NaN \<and> a = b)"

definition dgt :: "double \<Rightarrow> double \<Rightarrow> bool" where
  "dgt a b = dless b a"

definition dge :: "double \<Rightarrow> double \<Rightarrow> bool" where
  "dge a b = (dless b a \<or> deq a b)"

definition isnan :: "double \<Rightarrow> bool" where
  "isnan a = (a = NaN)"

definition isinf :: "double \<Rightarrow> bool" where
  "isinf a = (a = PInf \<or> a = NInf)"

text \<open>An OpenCV matrix; only emptiness matters to the driver.\<close>

type_synonym mat = "nat list list"

subsection \<open>The configuration (\<open>feature_config.h\<close>)\<close>

text \<open>
  The fields of \<open>struct _feature_config\<close> that the console program reads or writes.
\<close>

record feature_config =
  input :: mat
  seg :: mat
  processed :: mat
  features :: "double list"
  inputPath :: string
  imagefilename :: string
  outputPath :: string
  outputFile :: string
  recursive :: bool
  verbose :: bool
  showHelp :: bool
  showHelpMain :: bool
  showVersion :: bool
  showLicense :: bool
  showCredits :: bool
  noappend :: bool
  consolemode :: bool
  roottype :: int
  threshold :: int
  invertimage :: bool
  enablesmooththresh :: bool
  smooththresh :: double
  keepLargest :: bool
  filterbknoise :: bool
  filterfgnoise :: bool
  maxcompsizebk :: double
  maxcompsizefg :: double
  enableRootPruning :: bool
  rootPruningThreshold :: int
  pixelconv :: bool
  conversion :: double
  pixelspermm :: int
  dranges :: "double list"
  showConvexHull :: bool
  showHoles :: bool
  showDistMap :: bool
  showMedialAxis :: bool
  medialaxiswidth :: int
  showMedialAxisDiameter :: bool
  showContours :: bool
  contourwidth :: int
  savesegmented :: bool
  saveprocessed :: bool
  segsuffix :: string
  prosuffix :: string

text \<open>The member initialisers of the struct.\<close>

definition default_config :: feature_config where
  "default_config =
     \<lparr> input = [], seg = [], processed = [], features = [],
       inputPath = [], imagefilename = [], outputPath = [], outputFile = ''features.csv'',
       recursive = False, verbose = False, showHelp = False, showHelpMain = False,
       showVersion = False, showLicense = False, showCredits = False, noappend = False,
       consolemode = False, roottype = 1, threshold = 200, invertimage = False,
       enablesmooththresh = False, smooththresh = Fin 2, keepLargest = True,
       filterbknoise = False, filterfgnoise = False, maxcompsizebk = Fin 1,
       maxcompsizefg = Fin 1, enableRootPruning = False, rootPruningThreshold = 1,
       pixelconv = False, conversion = Fin 1, pixelspermm = 0, dranges = [Fin 2, Fin 5],
       showConvexHull = True, showHoles = True, showDistMap = False, showMedialAxis = True,
       medialaxiswidth = 3, showMedialAxisDiameter = True, showContours = True,
       contourwidth = 1, savesegmented = False, saveprocessed = False,
       segsuffix = [], prosuffix = [] \<rparr>"

subsection \<open>The environment\<close>

text \<open>
  \<open>stod\<close> is \<open>None\<close> where \<open>std::stod\<close> throws, and \<open>imread\<close> is \<open>Inl\<close> with
  the message where \<open>cv::imread\<close> throws. \<open>list_dir recursive p\<close> has the entries that
  the directory iterator delivers and, when the iteration throws a
  \<open>filesystem_error\<close>, its message. \<open>feature_extractor\<close> is given a pointer to the
  configuration and leaves its results there: the model has it return the segmented
  image, the processed image and the feature vector, which are stored into \<open>seg\<close>,
  \<open>processed\<close> and \<open>features\<close>, and the message of the exception when it throws.
  \<open>show_double p v\<close> is the text \<open>std::ostream\<close> prints for \<open>v\<close> after
  \<open>std::setprecision(p)\<close>; \<open>log10\<close> is the function of \<open>cmath\<close> on a positive finite
  argument; \<open>can_open\<close> tells whether \<open>std::ofstream::open\<close> succeeds on a path.
\<close>

record env =
  stod :: "string \<Rightarrow> double option"
  atoi :: "string \<Rightarrow> int"
  atof :: "string \<Rightarrow> double"
  fs_exists :: "string \<Rightarrow> bool"
  fs_is_directory :: "string \<Rightarrow> bool"
  fs_is_regular_file :: "string \<Rightarrow> bool"
  fs_absolute :: "string \<Rightarrow> string"
  fs_current_path :: string
  path_parent :: "string \<Rightarrow> string"
  path_is_absolute :: "string \<Rightarrow> bool"
  path_join :: "string \<Rightarrow> string \<Rightarrow> string"
  path_filename :: "string \<Rightarrow> string"
  path_stem :: "string \<Rightarrow> string"
  path_extension :: "string \<Rightarrow> string"
  list_dir :: "bool \<Rightarrow> string \<Rightarrow> string list \<times> string option"
  imread :: "string \<Rightarrow> string + mat"
  channels :: "mat \<Rightarrow> nat"
  cvtColor :: "mat \<Rightarrow> mat"
  feature_extractor :: "feature_config \<Rightarrow> string option \<times> mat \<times> mat \<times> double list"
  log10 :: "real \<Rightarrow> real"
  show_double :: "int \<Rightarrow> double \<Rightarrow> string"
  can_open :: "string \<Rightarrow> bool"

subsection \<open>Tokens of \<open>--dranges\<close>\<close>

definition is_ws :: "char \<Rightarrow> bool" where
  "is_ws c = (c = CHR '' '' \<or> c = CHR 0x09 \<or> c = CHR 0x0D \<or> c = CHR 0x0A)"

text \<open>
  \<open>trim_ws\<close>: \<open>a\<close> and \<open>b\<close> are the positions of the first and the last character that is
  not white space; the result is \<open>s.substr(a, b - a + 1)\<close>, or the empty string when there
  is no such character.
\<close>

definition trim_ws :: "string \<Rightarrow> string" where
  "trim_ws s =
     (let a = length (takeWhile is_ws s);
          b = length s - 1 - length (takeWhile is_ws (rev s))
      in if list_all is_ws s then [] else take (b - a + 1) (drop a s))"

definition is_digit :: "char \<Rightarrow> bool" where
  "is_digit c = (c \<in> set ''0123456789'')"

text \<open>
  \<open>is_positive_number_like\<close> matches the whole string against
  \<^verbatim>\<open>^\+?(?:\d+(?:\.\d*)?|\.\d+)(?:[eE][+-]?\d+)?$\<close>. After the optional sign the
  mantissa is read greedily; the character after a run of digits is never a digit, so no
  other split of the string can match.
\<close>

definition exponent_ok :: "string \<Rightarrow> bool" where
  "exponent_ok r =
     (case r of
        [] \<Rightarrow> True
      | c # r1 \<Rightarrow>
          (c = CHR ''e'' \<or> c = CHR ''E'') \<and>
          (let r2 = (case r1 of
                       [] \<Rightarrow> []
                     | d # r3 \<Rightarrow> if d = CHR ''+'' \<or> d = CHR ''-'' then r3 else r1)
           in r2 \<noteq> [] \<and> list_all is_digit r2))"

definition is_positive_number_like :: "string \<Rightarrow> bool" where
  "is_positive_number_like s =
     (let s1 = (case s of [] \<Rightarrow> [] | c # r \<Rightarrow> if c = CHR ''+'' then r else s);
          ds = takeWhile is_digit s1;
          r1 = dropWhile is_digit s1
      in if ds \<noteq> [] then
           (case r1 of
              [] \<Rightarrow> True
            | c # r2 \<Rightarrow>
                if c = CHR ''.'' then exponent_ok (dropWhile is_digit r2)
                else exponent_ok r1)
         else
           (case r1 of
              [] \<Rightarrow> False
            | c # r2 \<Rightarrow>
                c = CHR ''.'' \<and> takeWhile is_digit r2 \<noteq> [] \<and>
                exponent_ok (dropWhile is_digit r2)))"

text \<open>The two exceptions of \<open>append_checked_positive_ascending\<close>, the message of
  \<open>consume_drange_token\<close> for a piece that is no number, and an exception of
  \<open>std::stod\<close>.\<close>

datatype drange_error =
    Not_positive double
  | Not_ascending double double
  | Invalid_value string
  | Stod_threw string

text \<open>
  \<open>append_checked_positive_ascending(v, out)\<close> throws when \<open>v\<close> is not positive and
  when \<open>out\<close> is not empty and \<open>v\<close> is below its last element. It returns without
  touching \<open>out\<close>: the function has no \<open>push_back\<close>.
\<close>

definition append_checked_positive_ascending ::
    "double \<Rightarrow> double list \<Rightarrow> drange_error + double list" where
  "append_checked_positive_ascending v out =
     (if \<not> dgt v (Fin 0) then Inl (Not_positive v)
      else if out \<noteq> [] \<and> \<not> dge v (last out) then Inl (Not_ascending v (last out))
      else Inr out)"

text \<open>
  The pieces that successive \<open>std::getline(ss, piece, ',')\<close> calls deliver: the
  characters up to the next comma; at the end of the input a piece is delivered only
  when it has a character.
\<close>

fun getline_pieces :: "string \<Rightarrow> string \<Rightarrow> string list" where
  "getline_pieces acc [] = (if acc = [] then [] else [rev acc])"
| "getline_pieces acc (c # cs) =
     (if c = CHR '','' then rev acc # getline_pieces [] cs
      else getline_pieces (c # acc) cs)"

text \<open>
  The loop over the pieces of a comma-separated token. The result is what
  \<open>consume_drange_token\<close> returns from inside or after the loop: the return value, the
  vector \<open>out\<close> and the error text \<open>err\<close> (\<open>None\<close> for the empty string).
\<close>

fun drange_pieces_loop ::
    "env \<Rightarrow> string list \<Rightarrow> double list \<Rightarrow> bool \<Rightarrow> bool \<times> double list \<times> drange_error option"
where
  "drange_pieces_loop e [] out saw_any = (saw_any, out, None)"
| "drange_pieces_loop e (piece # ps) out saw_any =
     (let t = trim_ws piece in
      if t = [] then drange_pieces_loop e ps out saw_any
      else if \<not> is_positive_number_like t then (True, out, Some (Invalid_value t))
      else
        (case stod e t of
           None \<Rightarrow> (True, out, Some (Stod_threw t))
         | Some v \<Rightarrow>
             (case append_checked_positive_ascending v out of
                Inl x \<Rightarrow> (True, out, Some x)
              | Inr out' \<Rightarrow> drange_pieces_loop e ps out' True)))"

definition consume_drange_token ::
    "env \<Rightarrow> string \<Rightarrow> double list \<Rightarrow> bool \<times> double list \<times> drange_error option" where
  "consume_drange_token e raw out =
     (let token = trim_ws raw in
      if token = [] then (False, out, None)
      else if hd token = CHR ''-'' then (False, out, None)
      else if CHR '','' \<in> set token then drange_pieces_loop e (getline_pieces [] token) out False
      else if is_positive_number_like token then
        (case stod e token of
           None \<Rightarrow> (True, out, Some (Stod_threw token))
         | Some v \<Rightarrow>
             (case append_checked_positive_ascending v out of
                Inl x \<Rightarrow> (True, out, Some x)
              | Inr out' \<Rightarrow> (True, out', None)))
      else (False, out, None))"

subsection \<open>Diagnostics\<close>

text \<open>
  The lines the program writes to \<open>std::cerr\<close>, one constructor for each message of the
  source; the argument is the part of the text that varies. \<open>Err_requires opt\<close> stands
  for \<^verbatim>\<open>Error: <opt> requires a ...\<close>, \<open>Warn_ignored opt parent\<close> for
  \<^verbatim>\<open>Warning: <opt> is set but <parent> is not enabled. Ignoring <opt>.\<close>
\<close>

datatype diag =
    Err_requires string
  | Warn_metafile
  | Err_roottype
  | Err_threshold
  | Err_dranges drange_error
  | Err_multiple_inputs
  | Err_unknown_option string
  | Err_no_input
  | Err_output_path_missing string
  | Err_output_file_is_directory string
  | Err_output_directory_missing string
  | Warn_broken_roots
  | Warn_both_factors
  | Warn_factor_without_convert
  | Err_dranges_order
  | Err_dranges_positive double
  | Err_dranges_ascending
  | Warn_ignored string string
  | Err_not_supported string
  | Err_not_valid_path string
  | Err_filesystem string
  | Err_load string
  | Err_processing string string
  | Err_no_images string
  | Err_none_processed
  | Warn_appending string

text \<open>The messages whose text starts with \<^verbatim>\<open>Warning:\<close>.\<close>

fun is_warning :: "diag \<Rightarrow> bool" where
  "is_warning Warn_metafile = True"
| "is_warning Warn_broken_roots = True"
| "is_warning Warn_both_factors = True"
| "is_warning Warn_factor_without_convert = True"
| "is_warning (Warn_ignored opt parent) = True"
| "is_warning (Warn_appending p) = True"
| "is_warning d = False"

definition is_error :: "diag \<Rightarrow> bool" where
  "is_error d = (\<not> is_warning d)"

subsection \<open>\<open>parseCommandLine\<close>\<close>

text \<open>
  The configuration being built, the local variables of \<open>parseCommandLine\<close> and the
  lines written to \<open>std::cerr\<close> so far.
\<close>

record parse_state =
  cfg :: feature_config
  contours :: bool
  holes :: bool
  convexhull :: bool
  dpi :: bool
  pixels :: bool
  fgsize :: bool
  bgsize :: bool
  smooththreshold :: bool
  prunethresh :: bool
  ssuffix :: bool
  fsuffix :: bool
  pixelFactor :: double
  dpiFactor :: double
  diags :: "diag list"

definition init_state :: parse_state where
  "init_state =
     \<lparr> cfg = default_config\<lparr>segsuffix := ''_seg'', prosuffix := ''_features''\<rparr>,
       contours = False, holes = False, convexhull = False, dpi = False, pixels = False,
       fgsize = False, bgsize = False, smooththreshold = False, prunethresh = False,
       ssuffix = False, fsuffix = False, pixelFactor = Fin 1, dpiFactor = Fin 1,
       diags = [] \<rparr>"

definition upd :: "(feature_config \<Rightarrow> feature_config) \<Rightarrow> parse_state \<Rightarrow> parse_state" where
  "upd f s = s\<lparr>cfg := f (cfg s)\<rparr>"

definition say :: "diag \<Rightarrow> parse_state \<Rightarrow> parse_state" where
  "say d s = s\<lparr>diags := diags s @ [d]\<rparr>"

text \<open>An error line followed by \<open>config.showHelp = true\<close>.\<close>

definition fail :: "diag \<Rightarrow> parse_state \<Rightarrow> parse_state" where
  "fail d s = upd (\<lambda>c. c\<lparr>showHelp := True\<rparr>) (say d s)"

text \<open>A block of code either falls through to the next one or returns from the
  function.\<close>

datatype ('a, 'b) outcome = Continue 'a | Return 'b

text \<open>
  The inner loop of \<open>--dranges\<close> over \<open>argv[j]\<close>, \<open>j = i + 1, ...\<close>: it stops before
  a token that starts with \<open>-\<close> or that is no range token, and gives up at a token with
  an error. The result has the tokens that are left, or the error, and \<open>config.dranges\<close>.
\<close>

fun dranges_loop ::
    "env \<Rightarrow> string list \<Rightarrow> double list \<Rightarrow> (drange_error + string list) \<times> double list" where
  "dranges_loop e [] out = (Inr [], out)"
| "dranges_loop e (nxt # rest) out =
     (if nxt \<noteq> [] \<and> hd nxt = CHR ''-'' then (Inr (nxt # rest), out)
      else
        (case consume_drange_token e nxt out of
           (was_drange_token, out', parse_err) \<Rightarrow>
             if \<not> was_drange_token then (Inr (nxt # rest), out')
             else
               (case parse_err of
                  Some x \<Rightarrow> (Inl x, out')
                | None \<Rightarrow> dranges_loop e rest out')))"

text \<open>
  An option that takes a value: \<open>if (i + 1 < argc) ... argv[++i] ... else\<close> an error line
  and \<open>showHelp\<close>.
\<close>

definition with_value ::
    "string \<Rightarrow> (string \<Rightarrow> parse_state \<Rightarrow> parse_state) \<Rightarrow> string list \<Rightarrow> parse_state \<Rightarrow>
     (parse_state \<times> string list, parse_state) outcome" where
  "with_value opt f rest s =
     (case rest of
        [] \<Rightarrow> Continue (fail (Err_requires opt) s, [])
      | v # rest' \<Rightarrow> Continue (f v s, rest'))"

text \<open>
  One turn of the loop over \<open>argv\<close>: \<open>arg\<close> is \<open>argv[i]\<close> and \<open>rest\<close> the arguments
  after it. The result has the state and the arguments that are left for the next turns.
\<close>

definition parse_option ::
    "env \<Rightarrow> string \<Rightarrow> string list \<Rightarrow> parse_state \<Rightarrow>
     (parse_state \<times> string list, parse_state) outcome" where
  "parse_option e arg rest s =
    (if arg = ''-h'' \<or> arg = ''--help'' then
       Continue (upd (\<lambda>c. c\<lparr>showHelp := True, showHelpMain := True\<rparr>) s, rest)
     else if arg = ''--version'' then Continue (upd (\<lambda>c. c\<lparr>showVersion := True\<rparr>) s, rest)
     else if arg = ''--license'' then Continue (upd (\<lambda>c. c\<lparr>showLicense := True\<rparr>) s, rest)
     else if arg = ''--credits'' then Continue (upd (\<lambda>c. c\<lparr>showCredits := True\<rparr>) s, rest)
     else if arg = ''-na'' \<or> arg = ''--noappend'' then
       Continue (upd (\<lambda>c. c\<lparr>noappend := True\<rparr>) s, rest)
     else if arg = ''-op'' \<or> arg = ''--output_path'' then
       with_value ''--output_path'' (\<lambda>v. upd (\<lambda>c. c\<lparr>outputPath := v\<rparr>)) rest s
     else if arg = ''-o'' \<or> arg = ''--output'' then
       with_value ''--output'' (\<lambda>v. upd (\<lambda>c. c\<lparr>outputFile := v\<rparr>)) rest s
     else if arg = ''--metafile'' then
       with_value ''--metafile'' (\<lambda>v. say Warn_metafile) rest s
     else if arg = ''-r'' \<or> arg = ''--recursive'' then
       Continue (upd (\<lambda>c. c\<lparr>recursive := True\<rparr>) s, rest)
     else if arg = ''-v'' \<or> arg = ''--verbose'' then
       Continue (upd (\<lambda>c. c\<lparr>verbose := True\<rparr>) s, rest)
     else if arg = ''-rt'' \<or> arg = ''--roottype'' then
       with_value ''--roottype''
         (\<lambda>v. let val = atoi e v in
               if val = 0 \<or> val = 1 then upd (\<lambda>c. c\<lparr>roottype := val\<rparr>)
               else fail Err_roottype) rest s
     else if arg = ''-t'' \<or> arg = ''--threshold'' then
       with_value ''--threshold''
         (\<lambda>v. let val = atoi e v in
               if 0 \<le> val \<and> val \<le> 255 then upd (\<lambda>c. c\<lparr>threshold := val\<rparr>)
               else fail Err_threshold) rest s
     else if arg = ''-i'' \<or> arg = ''--invert'' then
       Continue (upd (\<lambda>c. c\<lparr>invertimage := True\<rparr>) s, rest)
     else if arg = ''-kl'' \<or> arg = ''--keeplargest'' then
       Continue (upd (\<lambda>c. c\<lparr>keepLargest := True\<rparr>) s, rest)
     else if arg = ''--bgnoise'' then Continue (upd (\<lambda>c. c\<lparr>filterbknoise := True\<rparr>) s, rest)
     else if arg = ''--fgnoise'' then Continue (upd (\<lambda>c. c\<lparr>filterfgnoise := True\<rparr>) s, rest)
     else if arg = ''--bgsize'' then
       with_value ''--bgsize'' (\<lambda>v. upd (\<lambda>c. c\<lparr>maxcompsizebk := atof e v\<rparr>)) rest
         (s\<lparr>bgsize := True\<rparr>)
     else if arg = ''--fgsize'' then
       with_value ''--fgsize'' (\<lambda>v. upd (\<lambda>c. c\<lparr>maxcompsizefg := atof e v\<rparr>)) rest
         (s\<lparr>fgsize := True\<rparr>)
     else if arg = ''-s'' \<or> arg = ''--smooth'' then
       Continue (upd (\<lambda>c. c\<lparr>enablesmooththresh := True\<rparr>) s, rest)
     else if arg = ''-st'' \<or> arg = ''--smooththreshold'' then
       with_value ''--smooththreshold'' (\<lambda>v. upd (\<lambda>c. c\<lparr>smooththresh := atof e v\<rparr>)) rest
         (s\<lparr>smooththreshold := True\<rparr>)
     else if arg = ''--convert'' then Continue (upd (\<lambda>c. c\<lparr>pixelconv := True\<rparr>) s, rest)
     else if arg = ''--factordpi'' then
       with_value ''--factordpi'' (\<lambda>v s'. s'\<lparr>dpiFactor := atof e v, dpi := True\<rparr>) rest s
     else if arg = ''--factorpixels'' then
       with_value ''--factorpixels'' (\<lambda>v s'. s'\<lparr>pixelFactor := atof e v, pixels := True\<rparr>)
         rest s
     else if arg = ''--prune'' then
       Continue (upd (\<lambda>c. c\<lparr>enableRootPruning := True\<rparr>) s, rest)
     else if arg = ''-pt'' \<or> arg = ''--prunethreshold'' then
       with_value ''--prunethreshold'' (\<lambda>v. upd (\<lambda>c. c\<lparr>rootPruningThreshold := atoi e v\<rparr>))
         rest (s\<lparr>prunethresh := True\<rparr>)
     else if arg = ''--dranges'' then
       (case dranges_loop e rest [] of
          (Inl x, out) \<Rightarrow> Return (fail (Err_dranges x) (upd (\<lambda>c. c\<lparr>dranges := out\<rparr>) s))
        | (Inr rest', out) \<Rightarrow> Continue (upd (\<lambda>c. c\<lparr>dranges := out\<rparr>) s, rest'))
     else if arg = ''--segment'' then Continue (upd (\<lambda>c. c\<lparr>savesegmented := True\<rparr>) s, rest)
     else if arg = ''--feature'' then Continue (upd (\<lambda>c. c\<lparr>saveprocessed := True\<rparr>) s, rest)
     else if arg = ''--ssuffix'' then
       with_value ''--ssuffix'' (\<lambda>v. upd (\<lambda>c. c\<lparr>segsuffix := v\<rparr>)) rest (s\<lparr>ssuffix := True\<rparr>)
     else if arg = ''--fsuffix'' then
       with_value ''--fsuffix'' (\<lambda>v. upd (\<lambda>c. c\<lparr>prosuffix := v\<rparr>)) rest (s\<lparr>fsuffix := True\<rparr>)
     else if arg = ''-ch'' \<or> arg = ''--convexhull'' then
       Continue (upd (\<lambda>c. c\<lparr>showConvexHull := True\<rparr>) (s\<lparr>convexhull := True\<rparr>), rest)
     else if arg = ''-ho'' \<or> arg = ''--holes'' then
       Continue (upd (\<lambda>c. c\<lparr>showHoles := True\<rparr>) (s\<lparr>holes := True\<rparr>), rest)
     else if arg = ''-dm'' \<or> arg = ''--distancemap'' then
       Continue (upd (\<lambda>c. c\<lparr>showDistMap := True\<rparr>) s, rest)
     else if arg = ''-ma'' \<or> arg = ''--medialaxis'' then
       Continue (upd (\<lambda>c. c\<lparr>showMedialAxis := True\<rparr>) s, rest)
     else if arg = ''-mw'' \<or> arg = ''--medialaxiswidth'' then
       with_value ''--medialaxiswidth'' (\<lambda>v. upd (\<lambda>c. c\<lparr>medialaxiswidth := atoi e v\<rparr>)) rest s
     else if arg = ''-to'' \<or> arg = ''--topology'' then
       Continue (upd (\<lambda>c. c\<lparr>showMedialAxisDiameter := False\<rparr>) s, rest)
     else if arg = ''-co'' \<or> arg = ''--contours'' then
       Continue (upd (\<lambda>c. c\<lparr>showContours := True\<rparr>) (s\<lparr>contours := True\<rparr>), rest)
     else if arg = ''-cw'' \<or> arg = ''--contourwidth'' then
       with_value ''--contourwidth'' (\<lambda>v. upd (\<lambda>c. c\<lparr>contourwidth := atoi e v\<rparr>)) rest s
     else if (case arg of [] \<Rightarrow> True | c # cs \<Rightarrow> c \<noteq> CHR ''-'') then
       (if inputPath (cfg s) = [] then Continue (upd (\<lambda>c. c\<lparr>inputPath := arg\<rparr>) s, rest)
        else Continue (fail Err_multiple_inputs s, rest))
     else Continue (fail (Err_unknown_option arg) s, rest))"

text \<open>
  A turn of the loop never hands on more arguments than it was given: this is what makes
  the loop end. \<open>hands_on n x\<close> says so of an outcome \<open>x\<close>.
\<close>

definition hands_on ::
    "nat \<Rightarrow> (parse_state \<times> string list, parse_state) outcome \<Rightarrow> bool" where
  "hands_on n x = (case x of Continue (s', rest') \<Rightarrow> length rest' \<le> n | Return r \<Rightarrow> True)"

lemma hands_on_if: "hands_on n a \<Longrightarrow> hands_on n b \<Longrightarrow> hands_on n (if c then a else b)"
  by simp

lemma hands_on_Continue: "length rest' \<le> n \<Longrightarrow> hands_on n (Continue (s', rest'))"
  by (simp add: hands_on_def)

lemma hands_on_with_value: "hands_on (length rest) (with_value opt f rest s)"
  by (simp add: hands_on_def with_value_def split: list.splits)

lemma dranges_loop_length:
  "dranges_loop e rest out = (Inr rest', out') \<Longrightarrow> length rest' \<le> length rest"
proof (induction rest arbitrary: out)
  case Nil
  then show ?case by simp
next
  case (Cons nxt rest)
  then show ?case
    by (fastforce split: if_splits prod.splits option.splits dest: le_SucI)
qed

lemma hands_on_dranges:
  "hands_on (length rest)
     (case dranges_loop e rest out0 of
        (Inl x, out) \<Rightarrow> Return (f x out)
      | (Inr rest', out) \<Rightarrow> Continue (g out, rest'))"
  by (auto simp: hands_on_def split: prod.splits sum.splits dest: dranges_loop_length)

lemma parse_option_hands_on: "hands_on (length rest) (parse_option e arg rest s)"
  unfolding parse_option_def
  by (intro hands_on_if hands_on_with_value hands_on_dranges hands_on_Continue) simp_all

lemma parse_option_length:
  "parse_option e arg rest s = Continue (s', rest') \<Longrightarrow> length rest' \<le> length rest"
  using parse_option_hands_on[of rest e arg s] by (simp add: hands_on_def)

text \<open>The loop \<open>for (int i = 1; i < argc; ++i)\<close> over the arguments that are left.\<close>

function parse_loop ::
    "env \<Rightarrow> string list \<Rightarrow> parse_state \<Rightarrow> (parse_state, parse_state) outcome" where
  "parse_loop e [] s = Continue s"
| "parse_loop e (arg # rest) s =
     (case parse_option e arg rest s of
        Return s' \<Rightarrow> Return s'
      | Continue (s', rest') \<Rightarrow> parse_loop e rest' s')"
  by pat_completeness auto
termination
  by (relation "measure (\<lambda>(e, args, s). length args)")
     (auto dest: parse_option_length)

text \<open>
  After the loop: without an input path the function returns, with an error unless help,
  version, licence or credits were asked for.
\<close>

definition check_input_path :: "parse_state \<Rightarrow> (parse_state, parse_state) outcome" where
  "check_input_path s =
     (if inputPath (cfg s) = [] then
        (if \<not> (showHelp (cfg s) \<or> showVersion (cfg s) \<or> showLicense (cfg s) \<or>
                showCredits (cfg s))
         then Return (fail Err_no_input s)
         else Return s)
      else Continue s)"

text \<open>The default of the output directory, and the test that it exists.\<close>

definition check_output_path :: "env \<Rightarrow> parse_state \<Rightarrow> (parse_state, parse_state) outcome" where
  "check_output_path e s =
     (let inPath = inputPath (cfg s);
          s1 = (if outputPath (cfg s) = [] then
                  (if inPath \<noteq> [] then
                     (if fs_is_directory e inPath then upd (\<lambda>c. c\<lparr>outputPath := inPath\<rparr>) s
                      else
                        upd (\<lambda>c. c\<lparr>outputPath :=
                                    (if path_parent e inPath \<noteq> [] then path_parent e inPath
                                     else path_parent e (fs_absolute e inPath))\<rparr>) s)
                   else upd (\<lambda>c. c\<lparr>outputPath := fs_current_path e\<rparr>) s)
                else s)
      in if \<not> fs_exists e (outputPath (cfg s1))
         then Return (fail (Err_output_path_missing (outputPath (cfg s1))) s1)
         else Continue s1)"

text \<open>The output file: a directory is an error, so is a file in a directory that does not
  exist; a relative name is put under the output directory.\<close>

definition check_output_file :: "env \<Rightarrow> parse_state \<Rightarrow> (parse_state, parse_state) outcome" where
  "check_output_file e s =
     (let outFilePath = outputFile (cfg s) in
      if outFilePath \<noteq> [] then
        (if fs_is_directory e outFilePath
         then Return (fail (Err_output_file_is_directory outFilePath) s)
         else if path_is_absolute e outFilePath then
           (if path_parent e outFilePath \<noteq> [] \<and> \<not> fs_exists e (path_parent e outFilePath)
            then Return (fail (Err_output_directory_missing (path_parent e outFilePath)) s)
            else Continue s)
         else
           (let combinedPath = path_join e (outputPath (cfg s)) outFilePath in
            if path_parent e combinedPath \<noteq> [] \<and> \<not> fs_exists e (path_parent e combinedPath)
            then Return (fail (Err_output_directory_missing (path_parent e combinedPath)) s)
            else Continue (upd (\<lambda>c. c\<lparr>outputFile := combinedPath\<rparr>) s)))
      else
        Continue (upd (\<lambda>c. c\<lparr>outputFile := path_join e (outputPath (cfg s)) ''features.csv''\<rparr>) s))"

text \<open>Broken roots: the three overlays are switched off when one of them was asked for.\<close>

definition check_broken_roots :: "parse_state \<Rightarrow> parse_state" where
  "check_broken_roots s =
     (if roottype (cfg s) = 1 \<and> (convexhull s \<or> holes s \<or> contours s) then
        upd (\<lambda>c. c\<lparr>showConvexHull := False, showHoles := False, showContours := False\<rparr>)
          (say Warn_broken_roots s)
      else s)"

text \<open>The conversion factor.\<close>

definition set_conversion :: "parse_state \<Rightarrow> parse_state" where
  "set_conversion s =
     (if pixelconv (cfg s) then
        (if pixels s then
           (let s1 = upd (\<lambda>c. c\<lparr>conversion := pixelFactor s, pixelspermm := 1\<rparr>) s
            in if dpi s then say Warn_both_factors s1 else s1)
         else if dpi s then upd (\<lambda>c. c\<lparr>conversion := dpiFactor s, pixelspermm := 0\<rparr>) s
         else upd (\<lambda>c. c\<lparr>conversion := Fin 1, pixelspermm := 0\<rparr>) s)
      else
        upd (\<lambda>c. c\<lparr>conversion := Fin 1, pixelspermm := 0\<rparr>)
          (if dpi s \<or> pixels s then say Warn_factor_without_convert s else s))"

text \<open>\<open>std::is_sorted\<close>: no element is less than the one before it.\<close>

fun is_sorted :: "double list \<Rightarrow> bool" where
  "is_sorted [] = True"
| "is_sorted [x] = True"
| "is_sorted (x # y # r) = (\<not> dless y x \<and> is_sorted (y # r))"

text \<open>The loop \<open>for (size_t k = 0; k < config.dranges.size(); ++k)\<close>: the first argument
  is \<open>dranges[k - 1]\<close> when \<open>k > 0\<close>; the result is the error at which the loop returns.\<close>

fun validate_dranges :: "double option \<Rightarrow> double list \<Rightarrow> diag option" where
  "validate_dranges prev [] = None"
| "validate_dranges prev (x # xs) =
     (if \<not> dgt x (Fin 0) then Some (Err_dranges_positive x)
      else
        (case prev of
           None \<Rightarrow> validate_dranges (Some x) xs
         | Some p \<Rightarrow>
             if \<not> dge x p then Some Err_dranges_ascending
             else validate_dranges (Some x) xs))"

definition check_dranges :: "parse_state \<Rightarrow> (parse_state, parse_state) outcome" where
  "check_dranges s =
     (if length (dranges (cfg s)) > 0 \<and> \<not> is_sorted (dranges (cfg s))
      then Return (fail Err_dranges_order s)
      else
        (case validate_dranges None (dranges (cfg s)) of
           Some d \<Rightarrow> Return (fail d s)
         | None \<Rightarrow> Continue s))"

text \<open>The six warnings for a value given to a feature that is not enabled.\<close>

definition warn_if :: "bool \<Rightarrow> diag \<Rightarrow> parse_state \<Rightarrow> parse_state" where
  "warn_if b d s = (if b then say d s else s)"

definition dependent_warnings :: "parse_state \<Rightarrow> parse_state" where
  "dependent_warnings s =
     warn_if (fsuffix s \<and> \<not> saveprocessed (cfg s)) (Warn_ignored ''--fsuffix'' ''--feature'')
    (warn_if (ssuffix s \<and> \<not> savesegmented (cfg s)) (Warn_ignored ''--ssuffix'' ''--segment'')
    (warn_if (prunethresh s \<and> \<not> enableRootPruning (cfg s))
       (Warn_ignored ''--prunethreshold'' ''--prune'')
    (warn_if (smooththreshold s \<and> \<not> enablesmooththresh (cfg s))
       (Warn_ignored ''--smooththreshold'' ''--smooth'')
    (warn_if (bgsize s \<and> \<not> filterbknoise (cfg s)) (Warn_ignored ''--bgsize'' ''--bgnoise'')
    (warn_if (fgsize s \<and> \<not> filterfgnoise (cfg s)) (Warn_ignored ''--fgsize'' ''--fgnoise'')
       s)))))"

text \<open>The part of \<open>parseCommandLine\<close> after the loop.\<close>

definition parse_finish :: "env \<Rightarrow> parse_state \<Rightarrow> parse_state" where
  "parse_finish e s =
     (case check_input_path s of
        Return r \<Rightarrow> r
      | Continue s1 \<Rightarrow>
     (case check_output_path e s1 of
        Return r \<Rightarrow> r
      | Continue s2 \<Rightarrow>
     (case check_output_file e s2 of
        Return r \<Rightarrow> r
      | Continue s3 \<Rightarrow>
     (case check_dranges (set_conversion (check_broken_roots s3)) of
        Return r \<Rightarrow> r
      | Continue s4 \<Rightarrow> dependent_warnings s4))))"

text \<open>
  \<open>parse_from s args\<close> is \<open>parseCommandLine\<close> from the moment the loop is in state
  \<open>s\<close> with the arguments \<open>args\<close> still to read; \<open>parseCommandLine\<close> starts it after
  \<open>argv[0]\<close>. The result keeps the local variables and the lines written, next to the
  configuration \<open>cfg\<close> that the function returns.
\<close>

definition parse_from :: "env \<Rightarrow> parse_state \<Rightarrow> string list \<Rightarrow> parse_state" where
  "parse_from e s args =
     (case parse_loop e args s of
        Return r \<Rightarrow> r
      | Continue s' \<Rightarrow> parse_finish e s')"

definition parseCommandLine :: "env \<Rightarrow> string list \<Rightarrow> parse_state" where
  "parseCommandLine e argv = parse_from e init_state (drop 1 argv)"

subsection \<open>The world of a run\<close>

text \<open>
  The lines printed to \<open>std::cout\<close>. The elapsed and the remaining time of the progress
  lines and the drawing of the progress bar are left out.
\<close>

datatype out_msg =
    Usage
  | Version
  | License
  | Credits
  | Found_images nat
  | Configuration int int bool bool string string string "double option"
  | Processing nat nat string
  | Progress nat nat string
  | Segmented_saved string
  | Processed_saved string
  | Success nat

text \<open>
  What a run reads and writes: the two output streams, the paths given to \<open>cv::imread\<close>,
  the images given to \<open>cv::imwrite\<close> and the contents of the text files.
\<close>

record world =
  cerr :: "diag list"
  cout :: "out_msg list"
  imreads :: "string list"
  imwrites :: "(string \<times> mat) list"
  files :: "string \<Rightarrow> string option"

definition to_cerr :: "diag \<Rightarrow> world \<Rightarrow> world" where
  "to_cerr d w = w\<lparr>cerr := cerr w @ [d]\<rparr>"

definition to_cout :: "out_msg \<Rightarrow> world \<Rightarrow> world" where
  "to_cout m w = w\<lparr>cout := cout w @ [m]\<rparr>"

subsection \<open>Collecting the image files\<close>




subsection \<open>\<open>analyzeImage\<close>\<close>

text \<open>
  The result is the return value and the configuration and the world as the call leaves
  them. The \<open>catch\<close> clause is the branch of an \<open>Inl\<close> of \<open>imread\<close> and of a message of
  \<open>feature_extractor\<close>.
\<close>

definition save_image ::
    "env \<Rightarrow> feature_config \<Rightarrow> string \<Rightarrow> mat \<Rightarrow> (string \<Rightarrow> out_msg) \<Rightarrow> world \<Rightarrow> world" where
  "save_image e config suffix m msg w =
     (let savefile = path_stem e (inputPath config) @ suffix @ ''.png'';
          w1 = w\<lparr>imwrites := imwrites w @ [(path_join e (outputPath config) savefile, m)]\<rparr>
      in if verbose config then to_cout (msg savefile) w1 else w1)"

definition analyzeImage :: "env \<Rightarrow> feature_config \<Rightarrow> world \<Rightarrow> bool \<times> feature_config \<times> world" where
  "analyzeImage e config w =
     (let w1 = w\<lparr>imreads := imreads w @ [inputPath config]\<rparr> in
      case imread e (inputPath config) of
        Inl what \<Rightarrow> (False, config, to_cerr (Err_processing (inputPath config) what) w1)
      | Inr inp \<Rightarrow>
          if inp = [] then (False, config, to_cerr (Err_load (inputPath config)) w1)
          else
            (let inp1 = (if channels e inp = 3 then cvtColor e inp else inp);
                 c1 = config\<lparr>imagefilename := path_filename e (inputPath config),
                             input := inp1, features := []\<rparr>
             in case feature_extractor e c1 of
                  (thrown, sg, pr, fv) \<Rightarrow>
                    (let c2 = c1\<lparr>seg := sg, processed := pr, features := fv\<rparr> in
                     case thrown of
                       Some what \<Rightarrow>
                         (False, c2, to_cerr (Err_processing (inputPath c2) what) w1)
                     | None \<Rightarrow>
                         (let w2 = (if savesegmented c2 \<and> seg c2 \<noteq> []
                                    then save_image e c2 (segsuffix c2) (seg c2)
                                           Segmented_saved w1
                                    else w1);
                              w3 = (if saveprocessed c2 \<and> processed c2 \<noteq> []
                                    then save_image e c2 (prosuffix c2) (processed c2)
                                           Processed_saved w2
                                    else w2)
                          in (True, c2, w3)))))"

subsection \<open>The CSV file\<close>

definition digit_char :: "nat \<Rightarrow> char" where
  "digit_char d = ''0123456789'' ! d"

text \<open>An integer as \<open>operator<<\<close> prints it.\<close>

fun show_nat :: "nat \<Rightarrow> string" where
  "show_nat n = (if n < 10 then [digit_char n] else show_nat (n div 10) @ [digit_char (n mod 10)])"

text \<open>One of the loops \<open>for (int k = 0; k <= config.dranges.size(); k++)\<close> of the
  header.\<close>

definition range_columns :: "string \<Rightarrow> string \<Rightarrow> nat \<Rightarrow> string" where
  "range_columns name unit n =
     concat (map (\<lambda>k. name @ show_nat (k + 1) @ unit) [0..<Suc n])"

definition writeCsvHeader :: "feature_config \<Rightarrow> string" where
  "writeCsvHeader config =
     (let unitlength = (if pixelconv config then ''.mm'' else ''.px'');
          unitarea = (if pixelconv config then ''.mm2'' else ''.px2'');
          unitvolume = (if pixelconv config then ''.mm3'' else ''.px3'');
          perunitlength = (if pixelconv config then ''.per.mm'' else ''.per.px'');
          n = length (dranges config)
      in if roottype config = 0 then
           ''File.Name,Region.of.Interest,Median.Number.of.Roots,Maximum.Number.of.Roots,Number.of.Root.Tips,''
           @ ''Total.Root.Length'' @ unitlength @ '',Depth'' @ unitlength
           @ '',Maximum.Width'' @ unitlength @ '',Width-to-Depth.Ratio,Network.Area'' @ unitarea
           @ '','' @ ''Convex.Area'' @ unitarea @ '',Solidity,Lower.Root.Area'' @ unitarea
           @ '',Average.Diameter'' @ unitlength @ '',Median.Diameter'' @ unitlength @ '',''
           @ ''Maximum.Diameter'' @ unitlength @ '',Perimeter'' @ unitlength @ '',Volume''
           @ unitvolume @ '',Surface.Area'' @ unitarea @ '',Holes,Average.Hole.Size'' @ unitarea
           @ '','' @ ''Computation.Time.s,Average.Root.Orientation.deg,Shallow.Angle.Frequency,Medium.Angle.Frequency,''
           @ ''Steep.Angle.Frequency''
           @ range_columns '',Root.Length.Diameter.Range.'' unitlength n
           @ range_columns '',Projected.Area.Diameter.Range.'' unitarea n
           @ range_columns '',Surface.Area.Diameter.Range.'' unitarea n
           @ range_columns '',Volume.Diameter.Range.'' unitvolume n
           @ [CHR 0x0A]
         else
           ''File.Name,Region.of.Interest,Number.of.Root.Tips,Number.of.Branch.Points,''
           @ ''Total.Root.Length'' @ unitlength @ '',Branching.frequency'' @ perunitlength
           @ '',Network.Area'' @ unitarea @ '',''
           @ ''Average.Diameter'' @ unitlength @ '',Median.Diameter'' @ unitlength @ '',''
           @ ''Maximum.Diameter'' @ unitlength @ '',Perimeter'' @ unitlength @ '',Volume''
           @ unitvolume @ '',Surface.Area'' @ unitarea @ '',''
           @ ''Computation.Time.s''
           @ range_columns '',Root.Length.Diameter.Range.'' unitlength n
           @ range_columns '',Projected.Area.Diameter.Range.'' unitarea n
           @ range_columns '',Surface.Area.Diameter.Range.'' unitarea n
           @ range_columns '',Volume.Diameter.Range.'' unitvolume n
           @ [CHR 0x0A])"

text \<open>
  What the loop over the features writes for one value. The precision handed to
  \<open>std::setprecision\<close> is \<open>ceil(log10(abs(feature))) + 6\<close>, converted to \<open>int\<close>.
\<close>

definition write_feature :: "env \<Rightarrow> double \<Rightarrow> string" where
  "write_feature e feature =
     (if \<not> (isnan feature \<or> isinf feature \<or> deq feature (Fin 0)) then
        '','' @ show_double e
                  (case feature of Fin v \<Rightarrow> \<lceil>log10 e \<bar>v\<bar>\<rceil> + 6 | _ \<Rightarrow> 6) feature
      else if deq feature (Fin 0) then '','' @ show_double e 6 feature
      else '','' @ ''NA'')"

definition csv_row :: "env \<Rightarrow> string \<Rightarrow> double list \<Rightarrow> string \<Rightarrow> string" where
  "csv_row e imageFile fv roiname =
     path_filename e imageFile @ '','' @ roiname @ concat (map (write_feature e) fv)
     @ [CHR 0x0A]"

text \<open>
  \<open>allFeatures[i]\<close> and \<open>roiNames[i]\<close> are read for every index of \<open>imageFiles\<close>; the
  three vectors have the same length wherever the function is called. The file is opened
  with \<open>std::ios::app\<close>; when the opening fails nothing is written.
\<close>

definition csv_rows :: "env \<Rightarrow> string list \<Rightarrow> double list list \<Rightarrow> string list \<Rightarrow> string" where
  "csv_rows e imageFiles allFeatures roiNames =
     concat (map (\<lambda>i. csv_row e (imageFiles ! i) (allFeatures ! i) (roiNames ! i))
               [0..<length imageFiles])"

definition writeResultsToCsv ::
    "env \<Rightarrow> feature_config \<Rightarrow> string list \<Rightarrow> double list list \<Rightarrow> string list \<Rightarrow> world \<Rightarrow> world"
where
  "writeResultsToCsv e config imageFiles allFeatures roiNames w =
     (let csvFullPath = outputFile config;
          fileExists = (files w csvFullPath \<noteq> None);
          w1 = (if \<not> noappend config \<and> fileExists \<and> verbose config
                then to_cerr (Warn_appending csvFullPath) w else w);
          written = (if \<not> fileExists \<or> noappend config then writeCsvHeader config else [])
                    @ csv_rows e imageFiles allFeatures roiNames
      in if can_open e csvFullPath then
           w1\<lparr>files := (files w1)(csvFullPath \<mapsto>
                  (case files w csvFullPath of None \<Rightarrow> [] | Some old \<Rightarrow> old) @ written)\<rparr>
         else w1)"

subsection \<open>\<open>main\<close>\<close>

text \<open>The variables of the loop over the image files.\<close>

record batch =
  config :: feature_config
  outside :: world
  allFeatures :: "double list list"
  processedFiles :: "string list"
  roinames :: "string list"





subsection \<open>An environment to run the model in\<close>

text \<open>
  A small file system under \<open>/data\<close> with three images: \<open>a.png\<close> loads and is
  analysed, \<open>bad.png\<close> cannot be loaded and the analysis of \<open>boom.png\<close> throws. Paths
  are split at the last \<open>/\<close>. The working directory is \<open>/data\<close>. The numbers
  that \<open>stod\<close> and \<open>atof\<close> read and the logarithms are tabulated for the values used.
\<close>

definition ex_filename :: "string \<Rightarrow> string" where
  "ex_filename p = rev (takeWhile (\<lambda>c. c \<noteq> CHR ''/'') (rev p))"

definition ex_parent :: "string \<Rightarrow> string" where
  "ex_parent p = rev (drop 1 (dropWhile (\<lambda>c. c \<noteq> CHR ''/'') (rev p)))"

definition ex_extension :: "string \<Rightarrow> string" where
  "ex_extension p =
     (let f = ex_filename p
      in if CHR ''.'' \<in> set f then CHR ''.'' # rev (takeWhile (\<lambda>c. c \<noteq> CHR ''.'') (rev f))
         else [])"

definition ex_stem :: "string \<Rightarrow> string" where
  "ex_stem p =
     (let f = ex_filename p
      in if CHR ''.'' \<in> set f then rev (drop 1 (dropWhile (\<lambda>c. c \<noteq> CHR ''.'') (rev f)))
         else f)"

definition ex_numbers :: "(string \<times> double) list" where
  "ex_numbers =
     [(''0'', Fin 0), (''0.0'', Fin 0), (''1'', Fin 1), (''1.0'', Fin 1), (''2.0'', Fin 2),
      (''3.0'', Fin 3), (''5.0'', Fin 5), (''6.0'', Fin 6), (''0.5'', Fin (1 / 2))]"

definition ex_env :: env where
  "ex_env =
     \<lparr> stod = map_of ex_numbers,
       atoi = (\<lambda>v. if v = ''1'' then 1 else if v = ''150'' then 150 else 0),
       atof = (\<lambda>v. case map_of ex_numbers v of Some d \<Rightarrow> d | None \<Rightarrow> Fin 0),
       fs_exists = (\<lambda>p. p \<in> set [''/data'', ''/data/a.png'', ''/data/bad.png'',
                                  ''/data/boom.png'', ''/data/features.csv'']),
       fs_is_directory = (\<lambda>p. p = ''/data''),
       fs_is_regular_file = (\<lambda>p. p \<in> set [''/data/a.png'', ''/data/bad.png'',
                                           ''/data/boom.png'', ''/data/features.csv'']),
       fs_absolute = (\<lambda>p. if take 1 p = ''/'' then p else ''/data/'' @ p),
       fs_current_path = ''/data'',
       path_parent = ex_parent,
       path_is_absolute = (\<lambda>p. take 1 p = ''/''),
       path_join = (\<lambda>a b. if take 1 b = ''/'' then b else a @ ''/'' @ b),
       path_filename = ex_filename,
       path_stem = ex_stem,
       path_extension = ex_extension,
       list_dir = (\<lambda>rec p. if p = ''/data''
                             then ([''/data/a.png'', ''/data/bad.png'', ''/data/boom.png'',
                                    ''/data/features.csv''], None)
                             else ([], Some ''not a directory'')),
       imread = (\<lambda>p. if p = ''/data/a.png'' then Inr [[1]]
                       else if p = ''/data/boom.png'' then Inr [[2]] else Inr []),
       channels = (\<lambda>m. 1),
       cvtColor = (\<lambda>m. m),
       feature_extractor =
         (\<lambda>c. if input c = [[2]] then (Some ''boom'', [], [], [])
               else (None, [[0]], [[0]], [Fin 1, Fin 0, NaN])),
       log10 = (\<lambda>x. if x = 100 then 2 else if x = 10 then 1 else 0),
       show_double = (\<lambda>p v. CHR ''#'' # show_nat (nat p)),
       can_open = (\<lambda>p. True) \<rparr>"

definition ex_world :: world where
  "ex_world =
     \<lparr> cerr = [], cout = [], imreads = [], imwrites = [],
       files = [''/data/features.csv'' \<mapsto> ''old''] \<rparr>"

subsection \<open>The header as the specification describes it\<close>

text \<open>
  The specification names the columns of the two root types and says that the suffix of
  a column is fixed by its unit and by whether the conversion to physical units is
  active: \<open>.px\<close>, \<open>.px2\<close>, \<open>.px3\<close> and \<open>.per.px\<close> when it is not, \<open>.mm\<close>,
  \<open>.mm2\<close>, \<open>.mm3\<close> and \<open>.per.mm\<close> when it is. The definitions below follow these
  words, not the code: a column is its name and the kind of its unit.
\<close>

datatype unit_kind = Length | Area | Volume | Per_length | Unitless

definition unit_suffix :: "bool \<Rightarrow> unit_kind \<Rightarrow> string" where
  "unit_suffix active k =
     (case k of
        Length \<Rightarrow> if active then ''.mm'' else ''.px''
      | Area \<Rightarrow> if active then ''.mm2'' else ''.px2''
      | Volume \<Rightarrow> if active then ''.mm3'' else ''.px3''
      | Per_length \<Rightarrow> if active then ''.per.mm'' else ''.per.px''
      | Unitless \<Rightarrow> [])"

definition binned_series :: "string \<Rightarrow> unit_kind \<Rightarrow> nat \<Rightarrow> (string \<times> unit_kind) list" where
  "binned_series name k n = map (\<lambda>i. (name @ show_nat (i + 1), k)) [0..<Suc n]"

definition binned_columns :: "nat \<Rightarrow> (string \<times> unit_kind) list" where
  "binned_columns n =
     binned_series ''Root.Length.Diameter.Range.'' Length n
     @ binned_series ''Projected.Area.Diameter.Range.'' Area n
     @ binned_series ''Surface.Area.Diameter.Range.'' Area n
     @ binned_series ''Volume.Diameter.Range.'' Volume n"

definition whole_root_columns :: "(string \<times> unit_kind) list" where
  "whole_root_columns =
     [(''File.Name'', Unitless), (''Region.of.Interest'', Unitless),
      (''Median.Number.of.Roots'', Unitless), (''Maximum.Number.of.Roots'', Unitless),
      (''Number.of.Root.Tips'', Unitless), (''Total.Root.Length'', Length),
      (''Depth'', Length), (''Maximum.Width'', Length), (''Width-to-Depth.Ratio'', Unitless),
      (''Network.Area'', Area), (''Convex.Area'', Area), (''Solidity'', Unitless),
      (''Lower.Root.Area'', Area), (''Average.Diameter'', Length),
      (''Median.Diameter'', Length), (''Maximum.Diameter'', Length), (''Perimeter'', Length),
      (''Volume'', Volume), (''Surface.Area'', Area), (''Holes'', Unitless),
      (''Average.Hole.Size'', Area), (''Computation.Time.s'', Unitless),
      (''Average.Root.Orientation.deg'', Unitless), (''Shallow.Angle.Frequency'', Unitless),
      (''Medium.Angle.Frequency'', Unitless), (''Steep.Angle.Frequency'', Unitless)]"

definition broken_root_columns :: "(string \<times> unit_kind) list" where
  "broken_root_columns =
     [(''File.Name'', Unitless), (''Region.of.Interest'', Unitless),
      (''Number.of.Root.Tips'', Unitless), (''Number.of.Branch.Points'', Unitless),
      (''Total.Root.Length'', Length), (''Branching.frequency'', Per_length),
      (''Network.Area'', Area), (''Average.Diameter'', Length), (''Median.Diameter'', Length),
      (''Maximum.Diameter'', Length), (''Perimeter'', Length), (''Volume'', Volume),
      (''Surface.Area'', Area), (''Computation.Time.s'', Unitless)]"

definition header_columns :: "int \<Rightarrow> nat \<Rightarrow> (string \<times> unit_kind) list" where
  "header_columns rt n =
     (if rt = 0 then whole_root_columns else broken_root_columns) @ binned_columns n"

text \<open>A header line: every column is its name and the suffix of its unit, and the columns
  are separated by commas.\<close>

fun column_text :: "bool \<Rightarrow> string \<times> unit_kind \<Rightarrow> string" where
  "column_text active (name, k) = '','' @ name @ unit_suffix active k"

definition header_line :: "bool \<Rightarrow> (string \<times> unit_kind) list \<Rightarrow> string" where
  "header_line active cols = drop 1 (concat (map (column_text active) cols)) @ [CHR 0x0A]"

subsection \<open>Examples\<close>

text \<open>A configuration that overwrites: \<open>--noappend\<close> with the output file of the
  example world.\<close>

definition ex_config :: feature_config where
  "ex_config = default_config\<lparr>outputFile := ''/data/features.csv'', noappend := True\<rparr>"

subsection \<open>Notions for the statements and the proofs\<close>

text \<open>
  \<open>step_state\<close> and \<open>final_state\<close> read the state off an outcome; \<open>rel_step R s x\<close>
  says that \<open>R\<close> relates \<open>s\<close> to the state of the outcome \<open>x\<close>.
\<close>

text \<open>
  \<open>step_rel s r\<close> relates a state of the parser to a later one: \<open>keepLargest\<close>,
  \<open>showHelp\<close> and \<open>showHelpMain\<close> are never reset, \<open>dranges\<close> is left alone or
  emptied, lines are only added to \<open>std::cerr\<close>, and where \<open>showHelp\<close> is newly set,
  help was asked for or an error line was added.
\<close>

definition step_rel :: "parse_state \<Rightarrow> parse_state \<Rightarrow> bool" where
  "step_rel s r =
     ((keepLargest (cfg s) \<longrightarrow> keepLargest (cfg r)) \<and>
      (showHelp (cfg s) \<longrightarrow> showHelp (cfg r)) \<and>
      (showHelpMain (cfg s) \<longrightarrow> showHelpMain (cfg r)) \<and>
      (dranges (cfg r) = dranges (cfg s) \<or> dranges (cfg r) = []) \<and>
      take (length (diags s)) (diags r) = diags s \<and>
      (showHelp (cfg r) \<and> \<not> showHelp (cfg s) \<longrightarrow>
         showHelpMain (cfg r) \<or> (\<exists>d\<in>set (drop (length (diags s)) (diags r)). is_error d)))"

fun step_state :: "(parse_state \<times> string list, parse_state) outcome \<Rightarrow> parse_state" where
  "step_state (Continue (s, rest)) = s"
| "step_state (Return s) = s"

definition rel_step ::
  "(parse_state \<Rightarrow> parse_state \<Rightarrow> bool) \<Rightarrow> parse_state \<Rightarrow>
   (parse_state \<times> string list, parse_state) outcome \<Rightarrow> bool" where
  "rel_step R s x = R s (step_state x)"

fun final_state :: "(parse_state, parse_state) outcome \<Rightarrow> parse_state" where
  "final_state (Continue s) = s"
| "final_state (Return s) = s"














section \<open>Properties\<close>

subsection \<open>\<open>--dranges\<close> never stores a value\<close>

lemma append_checked_out:
  "append_checked_positive_ascending v out = Inr out' \<Longrightarrow> out' = out"
  by (auto simp: append_checked_positive_ascending_def split: if_splits)

lemma drange_pieces_loop_out:
  "drange_pieces_loop e ps out saw = (b, out', err) \<Longrightarrow> out' = out"
proof (induction ps arbitrary: saw)
  case Nil
  then show ?case by simp
next
  case (Cons piece ps)
  then show ?case
    by (auto simp: Let_def split: if_splits option.splits sum.splits dest: append_checked_out)
qed

lemma consume_drange_token_out:
  "consume_drange_token e raw out = (b, out', err) \<Longrightarrow> out' = out"
  unfolding consume_drange_token_def
  by (auto simp: Let_def split: if_splits option.splits sum.splits
           dest: append_checked_out drange_pieces_loop_out)

lemma dranges_loop_out: "dranges_loop e rest out = (x, out') \<Longrightarrow> out' = out"
proof (induction rest)
  case Nil
  then show ?case by simp
next
  case (Cons nxt rest)
  then show ?case
    by (auto split: if_splits prod.splits option.splits dest: consume_drange_token_out)
qed

subsection \<open>What every turn of the parser keeps\<close>

lemma rel_step_if:
  "rel_step R s a \<Longrightarrow> rel_step R s b \<Longrightarrow> rel_step R s (if c then a else b)"
  by simp

lemma rel_step_with_value:
  "(\<And>v. R s (f v s0)) \<Longrightarrow> R s (fail (Err_requires opt) s0) \<Longrightarrow>
   rel_step R s (with_value opt f rest s0)"
  by (simp add: rel_step_def with_value_def split: list.splits)

lemma rel_step_Continue: "R s s' \<Longrightarrow> rel_step R s (Continue (s', rest))"
  by (simp add: rel_step_def)

lemma rel_step_dranges:
  "(\<And>x. R s (fail (Err_dranges x) (upd (\<lambda>c. c\<lparr>dranges := []\<rparr>) s))) \<Longrightarrow>
   R s (upd (\<lambda>c. c\<lparr>dranges := []\<rparr>) s) \<Longrightarrow>
   rel_step R s
     (case dranges_loop e rest [] of
        (Inl x, out) \<Rightarrow> Return (fail (Err_dranges x) (upd (\<lambda>c. c\<lparr>dranges := out\<rparr>) s))
      | (Inr rest', out) \<Rightarrow> Continue (upd (\<lambda>c. c\<lparr>dranges := out\<rparr>) s, rest'))"
  by (auto simp: rel_step_def split: prod.splits sum.splits dest!: dranges_loop_out)

lemma parse_option_rel: "rel_step step_rel s (parse_option e arg rest s)"
  unfolding parse_option_def
  apply (intro rel_step_if rel_step_with_value rel_step_Continue rel_step_dranges)
  apply (simp_all add: step_rel_def upd_def say_def fail_def is_error_def Let_def)
  done

lemma step_rel_refl: "step_rel s s"
  by (simp add: step_rel_def)

lemma take_prefix_iff: "take (length xs) ys = xs \<longleftrightarrow> (\<exists>zs. ys = xs @ zs)"
  by (metis append_eq_conv_conj)

lemma step_rel_trans:
  assumes "step_rel a b" and "step_rel b c"
  shows "step_rel a c"
proof -
  from assms(1) obtain d1 where d1: "diags b = diags a @ d1"
    unfolding step_rel_def take_prefix_iff by blast
  from assms(2) obtain d2 where d2: "diags c = diags b @ d2"
    unfolding step_rel_def take_prefix_iff by blast
  have d: "diags c = diags a @ d1 @ d2" using d1 d2 by simp
  show ?thesis
    using assms unfolding step_rel_def by (auto simp: d d1)
qed

lemma parse_loop_rel: "step_rel s (final_state (parse_loop e args s))"
proof (induction e args s rule: parse_loop.induct)
  case (1 e s)
  then show ?case by (simp add: step_rel_refl)
next
  case (2 e arg rest s)
  show ?case
  proof (cases "parse_option e arg rest s")
    case (Return r)
    with parse_option_rel[of s e arg rest] show ?thesis by (simp add: rel_step_def)
  next
    case (Continue p)
    obtain s' rest' where p: "p = (s', rest')" by (cases p)
    from parse_option_rel[of s e arg rest] Continue p have "step_rel s s'"
      by (simp add: rel_step_def)
    moreover from 2 Continue p have "step_rel s' (final_state (parse_loop e rest' s'))" by simp
    ultimately show ?thesis using Continue p by (auto intro: step_rel_trans)
  qed
qed

lemma step_rel_fail: "is_error d \<Longrightarrow> step_rel s (fail d s)"
  by (simp add: step_rel_def fail_def say_def upd_def)

lemma check_input_path_rel: "step_rel s (final_state (check_input_path s))"
  by (simp add: check_input_path_def step_rel_fail step_rel_refl is_error_def)

lemma check_output_path_rel: "step_rel s (final_state (check_output_path e s))"
  by (simp add: check_output_path_def Let_def step_rel_def fail_def say_def upd_def is_error_def)

lemma check_output_file_rel: "step_rel s (final_state (check_output_file e s))"
  by (simp add: check_output_file_def Let_def step_rel_def fail_def say_def upd_def is_error_def)

lemma check_broken_roots_rel: "step_rel s (check_broken_roots s)"
  by (simp add: check_broken_roots_def step_rel_def say_def upd_def)

lemma set_conversion_rel: "step_rel s (set_conversion s)"
  by (simp add: set_conversion_def Let_def step_rel_def say_def upd_def)

lemma validate_dranges_error: "validate_dranges prev xs = Some d \<Longrightarrow> is_error d"
  by (induction prev xs rule: validate_dranges.induct)
     (auto simp: is_error_def split: if_splits option.splits)

lemma check_dranges_rel: "step_rel s (final_state (check_dranges s))"
  by (auto simp: check_dranges_def step_rel_fail step_rel_refl is_error_def
           split: option.splits dest: validate_dranges_error)

lemma dependent_warnings_rel: "step_rel s (dependent_warnings s)"
  by (simp add: dependent_warnings_def warn_if_def step_rel_def say_def)

lemma parse_finish_rel: "step_rel s (parse_finish e s)"
proof -
  note t = step_rel_trans
  show ?thesis
    unfolding parse_finish_def
    using check_input_path_rel[of s]
    apply (cases "check_input_path s"; simp)
    subgoal for s1
      using check_output_path_rel[of s1 e]
      apply (cases "check_output_path e s1"; simp)
      subgoal for s2
        using check_output_file_rel[of s2 e]
        apply (cases "check_output_file e s2"; simp)
        subgoal for s3
          using check_dranges_rel[of "set_conversion (check_broken_roots s3)"]
                set_conversion_rel[of "check_broken_roots s3"] check_broken_roots_rel[of s3]
          apply (cases "check_dranges (set_conversion (check_broken_roots s3))"; simp)
          subgoal for s4
            using dependent_warnings_rel[of s4] by (blast intro: t)
          by (blast intro: t)
        by (blast intro: t)
      by (blast intro: t)
    done
qed

lemma parse_from_rel: "step_rel s (parse_from e s args)"
  unfolding parse_from_def
  using parse_loop_rel[of s e args]
  by (cases "parse_loop e args s") (auto intro: step_rel_trans parse_finish_rel)

subsection \<open>The largest component filter\<close>

text \<open>
  Claim C10: for every command line, the configuration that \<open>parseCommandLine\<close> returns
  has \<open>keepLargest\<close> set: the field starts as \<open>true\<close> and the only option that writes
  it, \<open>-kl\<close> or \<open>--keeplargest\<close>, writes \<open>true\<close>. This holds for every root type
  and also when the parser returns early.
\<close>

theorem keepLargest_always: "keepLargest (cfg (parseCommandLine e argv))"
  using parse_from_rel[of init_state e "drop 1 argv"]
  by (simp add: parseCommandLine_def step_rel_def init_state_def default_config_def)

subsection \<open>Writing a feature value\<close>

text \<open>
  Claim C5: a feature value that is NaN or infinite is written as \<open>NA\<close>; a value that
  is zero is written after \<open>setprecision(6)\<close>; any other value \<open>v\<close> is written after
  \<open>setprecision(ceil(log10(|v|)) + 6)\<close>. Every value is preceded by a comma.
\<close>

theorem write_feature_encoding:
  "write_feature e NaN = '',NA'' \<and>
   write_feature e PInf = '',NA'' \<and>
   write_feature e NInf = '',NA'' \<and>
   write_feature e (Fin 0) = '','' @ show_double e 6 (Fin 0) \<and>
   (v \<noteq> 0 \<longrightarrow>
      write_feature e (Fin v) = '','' @ show_double e (\<lceil>log10 e \<bar>v\<bar>\<rceil> + 6) (Fin v))"
  by (simp add: write_feature_def isnan_def isinf_def deq_def)

text \<open>The encoding at the values 100, 0 and NaN in the example environment.\<close>

theorem write_feature_encoding_witness:
  "(100::real) \<noteq> 0 \<and> write_feature ex_env (Fin 100) = '',#8'' \<and>
   write_feature ex_env (Fin 0) = '',#6'' \<and> write_feature ex_env NaN = '',NA''"
  using write_feature_encoding[of ex_env 100]
  by (simp add: ex_env_def digit_char_def)

subsection \<open>The output file is never truncated\<close>

text \<open>
  Claim C9: when the output file exists and \<open>noappend\<close> is set, \<open>writeResultsToCsv\<close>
  opens the file for appending and writes a header and the rows after what the file
  holds: the old contents are a prefix of the new ones, and nothing is written when the
  file cannot be opened. No other file changes.
\<close>

theorem noappend_appends:
  assumes "files w (outputFile c) = Some old" and "noappend c"
  shows "files (writeResultsToCsv e c imageFiles feats rois w) (outputFile c) =
           Some (old @ (if can_open e (outputFile c)
                        then writeCsvHeader c @ csv_rows e imageFiles feats rois else [])) \<and>
         (\<forall>p. p \<noteq> outputFile c \<longrightarrow>
           files (writeResultsToCsv e c imageFiles feats rois w) p = files w p)"
  using assms by (simp add: writeResultsToCsv_def Let_def to_cerr_def)

text \<open>The file \<open>/data/features.csv\<close> of the example world holds \<open>old\<close> before the
  call and \<open>old\<close>, a header and one row after it.\<close>

theorem noappend_appends_witness:
  "files ex_world (outputFile ex_config) = Some ''old'' \<and> noappend ex_config \<and>
   files (writeResultsToCsv ex_env ex_config [''/data/a.png''] [[Fin 1]] [''Full''] ex_world)
     ''/data/features.csv'' =
     Some (''old'' @ writeCsvHeader ex_config @ ''a.png,Full,#6'' @ [CHR 0x0A])"
proof -
  have f: "files ex_world (outputFile ex_config) = Some ''old''"
    by (simp add: ex_world_def ex_config_def)
  have n: "noappend ex_config" by (simp add: ex_config_def)
  have o: "outputFile ex_config = ''/data/features.csv''" by (simp add: ex_config_def)
  have r: "csv_rows ex_env [''/data/a.png''] [[Fin 1]] [''Full''] = ''a.png,Full,#6'' @ [CHR 0x0A]"
    by (simp add: csv_rows_def csv_row_def write_feature_def ex_env_def ex_filename_def
          isnan_def isinf_def deq_def digit_char_def)
  have c: "can_open ex_env (outputFile ex_config)" by (simp add: ex_env_def)
  from noappend_appends[OF f n, of ex_env "[''/data/a.png'']" "[[Fin 1]]" "[''Full'']"]
  show ?thesis using f n o r c by simp
qed

subsection \<open>The header and its units\<close>

lemma range_columns_series:
  "concat (map (column_text active) (binned_series name k n)) =
     range_columns (CHR '','' # name) (unit_suffix active k) n"
  by (simp add: range_columns_def binned_series_def comp_def del: upt_Suc)

lemma header_line_binned:
  "concat (map (column_text active) (binned_columns n)) =
     range_columns '',Root.Length.Diameter.Range.'' (unit_suffix active Length) n
     @ range_columns '',Projected.Area.Diameter.Range.'' (unit_suffix active Area) n
     @ range_columns '',Surface.Area.Diameter.Range.'' (unit_suffix active Area) n
     @ range_columns '',Volume.Diameter.Range.'' (unit_suffix active Volume) n"
  by (simp add: binned_columns_def range_columns_series del: upt_Suc)

text \<open>
  Claim C6: the header that \<open>writeCsvHeader\<close> writes is the header line of the
  specification for the root type and the number of diameter ranges of the
  configuration: lengths end in \<open>.px\<close>, areas in \<open>.px2\<close>, volumes in \<open>.px3\<close> and the
  branching frequency in \<open>.per.px\<close> when \<open>pixelconv\<close> is off, and in \<open>.mm\<close>,
  \<open>.mm2\<close>, \<open>.mm3\<close> and \<open>.per.mm\<close> when it is on; nothing else of the configuration
  has a say in the suffixes.
\<close>

theorem header_units:
  "writeCsvHeader c =
     header_line (pixelconv c) (header_columns (roottype c) (length (dranges c)))"
proof (cases "roottype c = 0")
  case True
  then show ?thesis
    by (simp add: writeCsvHeader_def header_line_def header_columns_def header_line_binned
          whole_root_columns_def unit_suffix_def Let_def)
next
  case False
  then show ?thesis
    by (simp add: writeCsvHeader_def header_line_def header_columns_def header_line_binned
          broken_root_columns_def unit_suffix_def Let_def)
qed

subsection \<open>The first two columns\<close>




subsection \<open>The values of \<open>--dranges\<close> are lost\<close>

text \<open>
  Whatever the command line, the configuration has the two default cut points or none:
  no value given to \<open>--dranges\<close> is ever stored.
\<close>

lemma dranges_default_or_empty:
  "dranges (cfg (parseCommandLine e argv)) = [Fin 2, Fin 5] \<or>
   dranges (cfg (parseCommandLine e argv)) = []"
  using parse_from_rel[of init_state e "drop 1 argv"]
  by (simp add: parseCommandLine_def step_rel_def init_state_def default_config_def)

text \<open>
  Claim C1 says that \<open>--dranges\<close> followed by \<open>k\<close> positive ascending values leaves
  exactly these values in \<open>dranges\<close>. The code does not: for the command line
  \<open>rv --dranges 1.0,3.0,6.0 /data/a.png\<close> of the usage text the parser accepts the
  three values and returns a configuration with no cut point at all.
\<close>

theorem dranges_not_stored:
  "dranges (cfg (parseCommandLine ex_env [''rv'', ''--dranges'', ''1.0,3.0,6.0'', ''/data/a.png''])) = [] \<and>
   \<not> showHelp (cfg (parseCommandLine ex_env [''rv'', ''--dranges'', ''1.0,3.0,6.0'', ''/data/a.png'']))"
  by code_simp

subsection \<open>Command lines that are accepted\<close>






















subsection \<open>The options that were read\<close>
















subsection \<open>Broken roots and the overlays\<close>




subsection \<open>A batch of images\<close>







lemma writeCsvHeader_cong:
  "pixelconv c' = pixelconv c \<Longrightarrow> roottype c' = roottype c \<Longrightarrow> dranges c' = dranges c \<Longrightarrow>
   writeCsvHeader c' = writeCsvHeader c"
  by (simp add: writeCsvHeader_def)





subsection \<open>A value for a feature that is not enabled\<close>




text \<open>
  The suffixes are read by \<open>analyzeImage\<close> only to name an image that it saves, the one
  for segmented images only when \<open>savesegmented\<close> is set and the one for processed
  images only when \<open>saveprocessed\<close> is set.
\<close>

lemma analyzeImage_imwrites:
  "\<exists>ok sg pr.
     imwrites (snd (snd (analyzeImage e c w))) =
       imwrites w
       @ (if ok \<and> savesegmented c \<and> sg \<noteq> []
          then [(path_join e (outputPath c) (path_stem e (inputPath c) @ segsuffix c @ ''.png''), sg)]
          else [])
       @ (if ok \<and> saveprocessed c \<and> pr \<noteq> []
          then [(path_join e (outputPath c) (path_stem e (inputPath c) @ prosuffix c @ ''.png''), pr)]
          else [])"
proof (cases "imread e (inputPath c)")
  case (Inl what)
  then show ?thesis
    by (intro exI[of _ False]) (simp add: analyzeImage_def Let_def to_cerr_def)
next
  case (Inr inp)
  show ?thesis
  proof (cases "inp = []")
    case True
    with Inr show ?thesis
      by (intro exI[of _ False]) (simp add: analyzeImage_def Let_def to_cerr_def)
  next
    case False
    define c1 where "c1 = c\<lparr>imagefilename := path_filename e (inputPath c),
                             input := (if channels e inp = 3 then cvtColor e inp else inp),
                             features := []\<rparr>"
    obtain thrown sg pr fv where fe: "feature_extractor e c1 = (thrown, sg, pr, fv)"
      by (cases "feature_extractor e c1") auto
    show ?thesis
    proof (cases thrown)
      case (Some what)
      with Inr False fe show ?thesis
        unfolding c1_def
        by (intro exI[of _ False]) (simp add: analyzeImage_def Let_def to_cerr_def)
    next
      case None
      with Inr False fe show ?thesis
        unfolding c1_def
        by (intro exI[of _ True] exI[of _ sg] exI[of _ pr])
           (simp add: analyzeImage_def Let_def save_image_def to_cout_def)
    qed
  qed
qed

subsection \<open>A value of \<open>--dranges\<close> that is not positive\<close>














end
